theory Spec2Isabelle
  imports Complex_Main "HOL-Library.Multiset" "HOL-Library.Option_ord"
    "HOL-Library.Char_ord" "HOL-Library.List_Lexorder"
begin

section \<open>Python values shared by the modules\<close>

text \<open>
  A Python \<open>str\<close> is the list of its code points, and a \<open>char\<close> is a code point below 256:
  the texts of the model are those of Latin-1.
\<close>

text \<open>
  Exceptions of the Python program are values. \<open>AttributeError\<close> is an attribute read on
  \<open>None\<close>, \<open>KeyError\<close> a missing dictionary key, \<open>RuntimeError\<close> the one raised by
  \<open>MusicDatabase\<close>, \<open>InvalidNamespaceError\<close> the one raised by the store, and
  \<open>ExternalCallError\<close> stands for whatever a language-model call or an agent raises.
\<close>

datatype error =
  AttributeError | KeyError | RuntimeError | InvalidNamespaceError | ExternalCallError

text \<open>Python's truth test \<open>if s:\<close> on an \<open>Optional[str]\<close>: false for \<open>None\<close> and for \<open>""\<close>.\<close>

definition truthy :: "string option \<Rightarrow> bool" where
  "truthy v = (case v of None \<Rightarrow> False | Some s \<Rightarrow> s \<noteq> [])"

section \<open>Databases/CustomerDatabase.py\<close>

text \<open>
  The two tables, with the column types of the \<open>CREATE TABLE\<close> statements. A column
  declared \<open>NOT NULL\<close> holds a value; the others may hold \<open>NULL\<close>, which is \<open>None\<close>: the
  two \<open>id\<close> columns, which are \<open>TEXT PRIMARY KEY\<close> and so admit \<open>NULL\<close> in SQLite, and
  \<open>invoices.amount\<close>, which is \<open>REAL\<close>. A table is the list of its rows in storage order.
\<close>

record customer_row =
  cust_id :: "string option"
  cust_phone_number :: string
  cust_email :: string

record invoice_row =
  inv_id :: "string option"
  inv_customer_id :: string
  inv_amount :: "real option"
  inv_date :: string
  inv_employee_name :: string

record database =
  customers :: "customer_row list"
  invoices :: "invoice_row list"

text \<open>
  Every query method opens a connection inside \<open>try\<close> and catches \<open>sqlite3.Error\<close>. The
  connection is \<open>None\<close> when SQLite raises, \<open>Some d\<close> when it answers from the tables \<open>d\<close>.
\<close>

type_synonym connection = "database option"

text \<open>The rows of \<open>populate_customers_sample_data\<close> and \<open>populate_invoices_sample_data\<close>.\<close>

definition sample_customers :: "customer_row list" where
  "sample_customers =
    [\<lparr>cust_id = Some ''customer_1'', cust_phone_number = ''+55 (12) 3923-5555'',
      cust_email = ''customer1@example.com''\<rparr>,
     \<lparr>cust_id = Some ''customer_2'', cust_phone_number = ''+55 (21) 99876-5432'',
      cust_email = ''customer2@example.com''\<rparr>,
     \<lparr>cust_id = Some ''customer_3'', cust_phone_number = ''+55 (11) 91234-5678'',
      cust_email = ''customer3@example.com''\<rparr>]"

definition sample_invoices :: "invoice_row list" where
  "sample_invoices =
    [\<lparr>inv_id = Some ''invoice_1'', inv_customer_id = ''customer_1'', inv_amount = Some (603 / 4),
      inv_date = ''2023-10-01'', inv_employee_name = ''Alice''\<rparr>,
     \<lparr>inv_id = Some ''invoice_2'', inv_customer_id = ''customer_2'', inv_amount = Some 200,
      inv_date = ''2023-10-05'', inv_employee_name = ''Bob''\<rparr>,
     \<lparr>inv_id = Some ''invoice_3'', inv_customer_id = ''customer_3'', inv_amount = Some (151 / 2),
      inv_date = ''2023-10-08'', inv_employee_name = ''Charlie''\<rparr>,
     \<lparr>inv_id = Some ''invoice_4'', inv_customer_id = ''customer_1'', inv_amount = Some (201 / 4),
      inv_date = ''2023-10-10'', inv_employee_name = ''Alice''\<rparr>]"

definition sample_database :: database where
  "sample_database = \<lparr>customers = sample_customers, invoices = sample_invoices\<rparr>"

text \<open>
  The \<open>conditions\<close> list of \<open>check_customer_exists\<close> and \<open>get_customer_details\<close>: one
  equality test per argument that passes Python's truth test, in the order id, phone
  number, email. The query joins them with \<open>OR\<close>. A column that holds \<open>NULL\<close> equals no
  parameter.
\<close>

definition condition ::
    "(customer_row \<Rightarrow> string option) \<Rightarrow> string option \<Rightarrow> (customer_row \<Rightarrow> bool) list" where
  "condition column v =
     (case v of None \<Rightarrow> [] | Some s \<Rightarrow> if s \<noteq> [] then [\<lambda>r. column r = Some s] else [])"

definition conditions :: "string option \<Rightarrow> string option \<Rightarrow> string option \<Rightarrow> (customer_row \<Rightarrow> bool) list" where
  "conditions customer_id phone_number email =
     condition cust_id customer_id @ condition (\<lambda>r. Some (cust_phone_number r)) phone_number
       @ condition (\<lambda>r. Some (cust_email r)) email"

text \<open>\<open>cursor.fetchone()\<close> after \<open>WHERE c1 OR c2 ...\<close>: the first row satisfying a condition.\<close>

definition fetchone :: "(customer_row \<Rightarrow> bool) list \<Rightarrow> customer_row list \<Rightarrow> customer_row option" where
  "fetchone conds rows = find (\<lambda>r. list_ex (\<lambda>c. c r) conds) rows"

definition check_customer_exists :: "connection \<Rightarrow> string option \<Rightarrow> string option \<Rightarrow> string option \<Rightarrow> bool" where
  "check_customer_exists conn customer_id phone_number email =
     (case conn of
        None \<Rightarrow> False
      | Some d \<Rightarrow>
          (let conds = conditions customer_id phone_number email in
           if conds = [] then False
           else fetchone conds (customers d) \<noteq> None))"

text \<open>
  A Python \<open>dict\<close> with string keys is an association list; \<open>{}\<close> is \<open>[]\<close>, and a value
  may be \<open>None\<close>.
\<close>

type_synonym dict = "(string \<times> string option) list"

definition get_customer_details :: "connection \<Rightarrow> string option \<Rightarrow> string option \<Rightarrow> string option \<Rightarrow> dict" where
  "get_customer_details conn customer_id phone_number email =
     (case conn of
        None \<Rightarrow> []
      | Some d \<Rightarrow>
          (let conds = conditions customer_id phone_number email in
           if conds = [] then []
           else (case fetchone conds (customers d) of
                   Some row \<Rightarrow>
                     [(''customer_id'', cust_id row),
                      (''phone_number'', Some (cust_phone_number row)),
                      (''email'', Some (cust_email row))]
                 | None \<Rightarrow> [])))"

text \<open>
  \<open>ORDER BY key DESC\<close>: the rows sorted by insertion into a list that descends in the
  key. On \<open>'a option\<close> the order of \<open>HOL-Library.Option_ord\<close> puts \<open>None\<close> below every
  value, as SQLite orders \<open>NULL\<close>.
\<close>

fun insert_desc :: "('a \<Rightarrow> 'k::linorder) \<Rightarrow> 'a \<Rightarrow> 'a list \<Rightarrow> 'a list" where
  "insert_desc key x [] = [x]"
| "insert_desc key x (y # ys) =
     (if key y < key x then x # y # ys else y # insert_desc key x ys)"

definition order_by_desc :: "('a \<Rightarrow> 'k::linorder) \<Rightarrow> 'a list \<Rightarrow> 'a list" where
  "order_by_desc key rows = foldr (insert_desc key) rows []"

text \<open>The result dictionaries of the invoice queries, with their five keys.\<close>

record invoice =
  invoice_id :: "string option"
  invoice_customer_id :: string
  amount :: "real option"
  date :: string
  employee_name :: string

definition invoice_of_row :: "invoice_row \<Rightarrow> invoice" where
  "invoice_of_row row =
     \<lparr>invoice_id = inv_id row, invoice_customer_id = inv_customer_id row,
      amount = inv_amount row, date = inv_date row, employee_name = inv_employee_name row\<rparr>"

definition get_invoices_by_customer_sorted_by_date :: "connection \<Rightarrow> string \<Rightarrow> invoice list" where
  "get_invoices_by_customer_sorted_by_date conn customer_id =
     (case conn of
        None \<Rightarrow> []
      | Some d \<Rightarrow>
          map invoice_of_row
            (order_by_desc inv_date (filter (\<lambda>r. inv_customer_id r = customer_id) (invoices d))))"

definition get_invoices_sorted_by_unit_price :: "connection \<Rightarrow> string \<Rightarrow> invoice list" where
  "get_invoices_sorted_by_unit_price conn customer_id =
     (case conn of
        None \<Rightarrow> []
      | Some d \<Rightarrow>
          map invoice_of_row
            (order_by_desc inv_amount (filter (\<lambda>r. inv_customer_id r = customer_id) (invoices d))))"

section \<open>Databases/MusicDatabase.py\<close>




record track_row =
  TrackId :: int
  track_Name :: string
  track_AlbumId :: int
  track_GenreId :: int
















section \<open>Utils/GraphInnerState.py and the messages\<close>

datatype message =
    SystemMessage string
  | HumanMessage string
  | AIMessage string
  | ToolMessage string

text \<open>
  The state is a dictionary with the keys \<open>messages\<close>, \<open>customer_id\<close> and
  \<open>loaded_preferences\<close>. A key other than \<open>messages\<close> is absent until a node writes it:
  the outer \<open>option\<close> is the presence of the key, the inner one of \<open>customer_id\<close> is
  Python's \<open>None\<close>.
\<close>

record GraphInnerState =
  messages :: "message list"
  customer_id :: "string option option"
  loaded_preferences :: "string option"

section \<open>Graph/CustomerVerification.py\<close>

record CustomerData =
  cd_customer_id :: "string option"
  cd_customer_phone_number :: "string option"
  cd_customer_email :: "string option"

text \<open>
  \<open>verificationModel.invoke\<close>: the call raises, or returns the parsed \<open>CustomerData\<close>, or
  returns \<open>None\<close> when nothing was parsed.
\<close>

type_synonym structured_model = "message list \<Rightarrow> error + CustomerData option"

definition system_prompt :: string where
  "system_prompt =
     ''\<newline>            Your mission is to extract customer identification details from their input. Only respond with the structured data.\<newline>            The customer may provide their customer ID, phone number, or email address.\<newline>            If the input does not contain any identifiable information, respond with empty fields.''"

text \<open>
  What a node does: it raises, it suspends at \<open>interrupt(prompt)\<close>, or it returns its
  update.
\<close>

datatype 'a outcome = Raised error | Interrupt string | Return 'a

text \<open>
  \<open>self.customer_db.get_customer_details(customer_id=structured_response.customer_id, ...)\<close>:
  reading an attribute of \<open>None\<close> raises before the database is asked.
\<close>

definition customer_details_of :: "connection \<Rightarrow> CustomerData option \<Rightarrow> error + dict" where
  "customer_details_of conn structured_response =
     (case structured_response of
        None \<Rightarrow> Inl AttributeError
      | Some cd \<Rightarrow>
          Inr (get_customer_details conn (cd_customer_id cd) (cd_customer_phone_number cd)
                 (cd_customer_email cd)))"

text \<open>The prompt chosen by \<open>if not structured_response\<close>; a \<open>CustomerData\<close> object is true.\<close>

definition interrupt_prompt :: "CustomerData option \<Rightarrow> string" where
  "interrupt_prompt structured_response =
     (case structured_response of
        None \<Rightarrow> ''Could not parse the response. Please provide the information in the correct format.''
      | Some cd \<Rightarrow> ''Please provide your phone number or email for verification.'')"

text \<open>
  The value returned after the loop:
  \<open>{"customer_id": str(d["customer_id"]) if d["customer_id"] is not None else None}\<close>.
\<close>

definition verified_update :: "dict \<Rightarrow> string option outcome" where
  "verified_update customerDetails =
     (case map_of customerDetails ''customer_id'' of
        None \<Rightarrow> Raised KeyError
      | Some None \<Rightarrow> Return None
      | Some (Some v) \<Rightarrow> Return (Some v))"

text \<open>
  The \<open>while not customerDetails\<close> loop. \<open>resumes\<close> are the inputs the user has given to
  the suspended node so far, oldest first: \<open>interrupt\<close> returns the next one, and suspends
  the node with its prompt when none is left. The first component of the result lists
  the requests sent to the model, in order.
\<close>

fun verify_loop ::
    "structured_model \<Rightarrow> connection \<Rightarrow> CustomerData option \<Rightarrow> dict \<Rightarrow> string list
      \<Rightarrow> message list list \<times> string option outcome" where
  "verify_loop vm conn structured_response customerDetails [] =
     (if customerDetails \<noteq> [] then ([], verified_update customerDetails)
      else ([], Interrupt (interrupt_prompt structured_response)))"
| "verify_loop vm conn structured_response customerDetails (interrupt_result # resumes) =
     (if customerDetails \<noteq> [] then ([], verified_update customerDetails)
      else
        (let request = [SystemMessage system_prompt, HumanMessage interrupt_result] in
         case vm request of
           Inl e \<Rightarrow> ([request], Raised e)
         | Inr structured_response' \<Rightarrow>
             (case customer_details_of conn structured_response' of
                Inl e \<Rightarrow> ([request], Raised e)
              | Inr customerDetails' \<Rightarrow>
                  (let (requests, out) =
                         verify_loop vm conn structured_response' customerDetails' resumes
                   in (request # requests, out)))))"

text \<open>
  The node. When a suspended node is resumed it runs again from its first statement,
  and each \<open>interrupt\<close> it reaches returns the resume input given for it: one execution
  of the node is \<open>verify_customer\<close> on the state of the checkpoint and all the resume
  inputs given so far. The model is a function of the request, so a request that is
  repeated gets the answer it got before.
\<close>

definition verify_customer ::
    "structured_model \<Rightarrow> connection \<Rightarrow> GraphInnerState \<Rightarrow> string list
      \<Rightarrow> message list list \<times> string option outcome" where
  "verify_customer vm conn state resumes =
     (let request = SystemMessage system_prompt # messages state in
      case vm request of
        Inl e \<Rightarrow> ([request], Raised e)
      | Inr structured_response \<Rightarrow>
          (case customer_details_of conn structured_response of
             Inl e \<Rightarrow> ([request], Raised e)
           | Inr customerDetails \<Rightarrow>
               (let (requests, out) =
                      verify_loop vm conn structured_response customerDetails resumes
                in (request # requests, out))))"

section \<open>The preference store\<close>

text \<open>
  The graph is compiled with an \<open>InMemoryStore\<close>. An item lives under a namespace, here the
  pair \<open>(state["customer_id"], "preferences")\<close>, and a key; its value is the dictionary
  \<open>{"text": ...}\<close>, kept as its text. The store is the list of its items in insertion
  order.
\<close>

type_synonym namespace = "string option \<times> string"

record item =
  item_namespace :: namespace
  item_key :: string
  item_text :: string

type_synonym store = "item list"

text \<open>
  \<open>store.search(namespace)\<close> is called with the namespace alone, so the store's default
  page applies: the first \<open>limit = 10\<close> items of the namespace, from \<open>offset = 0\<close>.
\<close>

definition search_default_limit :: nat where
  "search_default_limit = 10"

definition search :: "store \<Rightarrow> namespace \<Rightarrow> item list" where
  "search st ns = take search_default_limit (filter (\<lambda>i. item_namespace i = ns) st)"

text \<open>
  \<open>store.put(namespace, key, value)\<close> first validates the namespace: every label must be
  a string, not empty and without a full stop, and the first label must not be
  \<open>langgraph\<close>; otherwise it raises \<open>InvalidNamespaceError\<close> and stores nothing.
\<close>

definition valid_label :: "string option \<Rightarrow> bool" where
  "valid_label label =
     (case label of None \<Rightarrow> False | Some l \<Rightarrow> CHR ''.'' \<notin> set l \<and> l \<noteq> [])"

definition valid_namespace :: "namespace \<Rightarrow> bool" where
  "valid_namespace ns =
     (valid_label (fst ns) \<and> valid_label (Some (snd ns)) \<and> fst ns \<noteq> Some ''langgraph'')"

text \<open>
  Then it replaces the value of the item that is already under the namespace and key,
  where it stands, or appends a new item.
\<close>

fun upsert :: "store \<Rightarrow> namespace \<Rightarrow> string \<Rightarrow> string \<Rightarrow> store" where
  "upsert [] ns k v = [\<lparr>item_namespace = ns, item_key = k, item_text = v\<rparr>]"
| "upsert (i # st) ns k v =
     (if item_namespace i = ns \<and> item_key i = k then i\<lparr>item_text := v\<rparr> # st
      else i # upsert st ns k v)"

definition put :: "store \<Rightarrow> namespace \<Rightarrow> string \<Rightarrow> string \<Rightarrow> error + store" where
  "put st ns k v =
     (if valid_namespace ns then Inr (upsert st ns k v) else Inl InvalidNamespaceError)"

section \<open>Graph/CustomerPreferences.py\<close>

text \<open>Python's \<open>sep.join(xs)\<close>.\<close>

fun join :: "string \<Rightarrow> string list \<Rightarrow> string" where
  "join sep [] = []"
| "join sep [x] = x"
| "join sep (x # y # ys) = x @ sep @ join sep (y # ys)"

definition extract_preferences :: "store \<Rightarrow> GraphInnerState \<Rightarrow> string outcome" where
  "extract_preferences st state =
     (case customer_id state of
        None \<Rightarrow> Raised KeyError
      | Some cid \<Rightarrow>
          (let items = search st (cid, ''preferences'');
               preferences = join ''\<newline>'' (map item_text items)
           in Return (if preferences \<noteq> [] then ''## Preferences of user\<newline>'' @ preferences
                      else [])))"

text \<open>
  \<open>str.strip()\<close> removes the white space at both ends. Below 256 the white space of
  Python is the code points 9 to 13, 28 to 32, 133 (next line) and 160 (no-break
  space).
\<close>

definition is_space :: "char \<Rightarrow> bool" where
  "is_space c =
     (let n = (of_char c :: nat)
      in (9 \<le> n \<and> n \<le> 13) \<or> (28 \<le> n \<and> n \<le> 32) \<or> n = 133 \<or> n = 160)"

definition strip :: "string \<Rightarrow> string" where
  "strip s = rev (dropWhile is_space (rev (dropWhile is_space s)))"

text \<open>
  \<open>str.lower()\<close>. Below 256 the letters with a lower case of their own are \<open>A\<close> to \<open>Z\<close>
  and the code points 192 to 222 but 215 (the multiplication sign); each has its
  lower case 32 places up.
\<close>

definition upper_case :: string where
  "upper_case =
     ''ABCDEFGHIJKLMNOPQRSTUVWXYZ'' @
     [CHR 0xC0, CHR 0xC1, CHR 0xC2, CHR 0xC3, CHR 0xC4, CHR 0xC5, CHR 0xC6, CHR 0xC7,
      CHR 0xC8, CHR 0xC9, CHR 0xCA, CHR 0xCB, CHR 0xCC, CHR 0xCD, CHR 0xCE, CHR 0xCF,
      CHR 0xD0, CHR 0xD1, CHR 0xD2, CHR 0xD3, CHR 0xD4, CHR 0xD5, CHR 0xD6,
      CHR 0xD8, CHR 0xD9, CHR 0xDA, CHR 0xDB, CHR 0xDC, CHR 0xDD, CHR 0xDE]"

definition lower_case :: string where
  "lower_case =
     ''abcdefghijklmnopqrstuvwxyz'' @
     [CHR 0xE0, CHR 0xE1, CHR 0xE2, CHR 0xE3, CHR 0xE4, CHR 0xE5, CHR 0xE6, CHR 0xE7,
      CHR 0xE8, CHR 0xE9, CHR 0xEA, CHR 0xEB, CHR 0xEC, CHR 0xED, CHR 0xEE, CHR 0xEF,
      CHR 0xF0, CHR 0xF1, CHR 0xF2, CHR 0xF3, CHR 0xF4, CHR 0xF5, CHR 0xF6,
      CHR 0xF8, CHR 0xF9, CHR 0xFA, CHR 0xFB, CHR 0xFC, CHR 0xFD, CHR 0xFE]"

definition lower_char :: "char \<Rightarrow> char" where
  "lower_char c = (case map_of (zip upper_case lower_case) c of Some l \<Rightarrow> l | None \<Rightarrow> c)"

definition lower :: "string \<Rightarrow> string" where
  "lower s = map lower_char s"

text \<open>
  \<open>preferenceModel.invoke\<close> on the prompt filled with the last human message and the
  loaded preferences: the call raises, or returns the content of the reply. The rest
  of the prompt is fixed text.
\<close>

type_synonym text_model = "string \<Rightarrow> string \<Rightarrow> error + string"

definition is_human :: "message \<Rightarrow> bool" where
  "is_human m = (case m of HumanMessage c \<Rightarrow> True | _ \<Rightarrow> False)"

fun content :: "message \<Rightarrow> string" where
  "content (SystemMessage c) = c"
| "content (HumanMessage c) = c"
| "content (AIMessage c) = c"
| "content (ToolMessage c) = c"

text \<open>
  The content of the last \<open>HumanMessage\<close> of the state, \<open>""\<close> when there is none.
\<close>

definition last_human_message_content :: "GraphInnerState \<Rightarrow> string" where
  "last_human_message_content state =
     (case find is_human (rev (messages state)) of Some m \<Rightarrow> content m | None \<Rightarrow> [])"

text \<open>
  \<open>preference_id\<close> is the \<open>str(uuid.uuid4())\<close> drawn by this call. The node returns the
  state as it got it; the store is returned beside it.
\<close>

definition save_preferences ::
    "text_model \<Rightarrow> string \<Rightarrow> store \<Rightarrow> GraphInnerState \<Rightarrow> (GraphInnerState \<times> store) outcome" where
  "save_preferences pm preference_id st state =
     (case loaded_preferences state of
        None \<Rightarrow> Raised KeyError
      | Some previous_preferences \<Rightarrow>
          (case pm (last_human_message_content state) previous_preferences of
             Inl e \<Rightarrow> Raised e
           | Inr response \<Rightarrow>
               if lower (strip response) \<noteq> ''no preferences found.'' then
                 (case customer_id state of
                    None \<Rightarrow> Raised KeyError
                  | Some cid \<Rightarrow>
                      (case put st (cid, ''preferences'') preference_id (strip response) of
                         Inl e \<Rightarrow> Raised e
                       | Inr st' \<Rightarrow> Return (state, st')))
               else Return (state, st)))"

section \<open>Graph/CustomerQueryGraph.py\<close>

definition should_verify_customer :: "GraphInnerState \<Rightarrow> bool" where
  "should_verify_customer state =
     (if customer_id state = None \<or> customer_id state = Some None then True else False)"

text \<open>The nodes added by \<open>build_graph\<close>, and \<open>START\<close>.\<close>

datatype node =
    START
  | Summarize_conversation
  | Verify_customer
  | Extract_preferences
  | Supervisor_agent
  | Save_preferences

text \<open>The \<open>add_edge\<close> calls, in their order, and the one \<open>add_conditional_edges\<close> call.\<close>

definition edges :: "(node \<times> node) list" where
  "edges =
     [(START, Summarize_conversation),
      (Verify_customer, Extract_preferences),
      (Extract_preferences, Supervisor_agent),
      (Supervisor_agent, Save_preferences)]"

definition conditional_edges :: "node \<Rightarrow> (GraphInnerState \<Rightarrow> node) option" where
  "conditional_edges n =
     (if n = Summarize_conversation
      then Some (\<lambda>state. if should_verify_customer state then Verify_customer
                         else Extract_preferences)
      else None)"

text \<open>
  The node that runs after \<open>n\<close> has written its update; a node without an outgoing edge
  ends the run.
\<close>

definition next_node :: "node \<Rightarrow> GraphInnerState \<Rightarrow> node option" where
  "next_node n state =
     (case conditional_edges n of
        Some path \<Rightarrow> Some (path state)
      | None \<Rightarrow> map_of edges n)"

text \<open>
  The collaborators of a run. \<open>summarization_node\<close> and \<open>supervisor_agent\<close> are built by
  libraries from language models; each raises or returns the new value of \<open>messages\<close>,
  the only key they write.
\<close>

record env =
  customer_db :: connection
  verificationModel :: structured_model
  preferenceModel :: text_model
  summarization_node :: "GraphInnerState \<Rightarrow> error + message list"
  supervisor_agent :: "GraphInnerState \<Rightarrow> error + message list"

text \<open>
  One node on the state and the store: its update is merged into the state. \<open>resumes\<close>
  are the resume inputs given to the suspended \<open>verify_customer\<close> so far.
\<close>

fun run_node ::
    "env \<Rightarrow> string list \<Rightarrow> string \<Rightarrow> node \<Rightarrow> GraphInnerState \<Rightarrow> store
      \<Rightarrow> (GraphInnerState \<times> store) outcome" where
  "run_node e resumes preference_id START state st = Return (state, st)"
| "run_node e resumes preference_id Summarize_conversation state st =
     (case summarization_node e state of
        Inl err \<Rightarrow> Raised err
      | Inr ms \<Rightarrow> Return (state\<lparr>messages := ms\<rparr>, st))"
| "run_node e resumes preference_id Verify_customer state st =
     (case snd (verify_customer (verificationModel e) (customer_db e) state resumes) of
        Raised err \<Rightarrow> Raised err
      | Interrupt prompt \<Rightarrow> Interrupt prompt
      | Return v \<Rightarrow> Return (state\<lparr>customer_id := Some v\<rparr>, st))"
| "run_node e resumes preference_id Extract_preferences state st =
     (case extract_preferences st state of
        Raised err \<Rightarrow> Raised err
      | Interrupt prompt \<Rightarrow> Interrupt prompt
      | Return preferences \<Rightarrow> Return (state\<lparr>loaded_preferences := Some preferences\<rparr>, st))"
| "run_node e resumes preference_id Supervisor_agent state st =
     (case supervisor_agent e state of
        Inl err \<Rightarrow> Raised err
      | Inr ms \<Rightarrow> Return (state\<lparr>messages := ms\<rparr>, st))"
| "run_node e resumes preference_id Save_preferences state st =
     save_preferences (preferenceModel e) preference_id st state"

text \<open>
  How far a node is from the end of the graph: every edge leads to a node of smaller
  rank, so a run visits each node at most once.
\<close>

fun rank :: "node \<Rightarrow> nat" where
  "rank START = 5"
| "rank Summarize_conversation = 4"
| "rank Verify_customer = 3"
| "rank Extract_preferences = 2"
| "rank Supervisor_agent = 1"
| "rank Save_preferences = 0"

lemma next_node_rank: "next_node n state = Some n' \<Longrightarrow> rank n' < rank n"
  by (cases n) (auto simp: next_node_def conditional_edges_def edges_def split: if_splits)

text \<open>
  A run from node \<open>n\<close>: the nodes entered, each with the state it was entered with, and
  how the run ended. A node that raises or suspends ends the run there; its entry
  state is the last one checkpointed.
\<close>

function run_from ::
    "env \<Rightarrow> string list \<Rightarrow> string \<Rightarrow> node \<Rightarrow> GraphInnerState \<Rightarrow> store
      \<Rightarrow> (node \<times> GraphInnerState) list \<times> (GraphInnerState \<times> store) outcome" where
  "run_from e resumes preference_id n state st =
     (case run_node e resumes preference_id n state st of
        Raised err \<Rightarrow> ([(n, state)], Raised err)
      | Interrupt prompt \<Rightarrow> ([(n, state)], Interrupt prompt)
      | Return (state', st') \<Rightarrow>
          (case next_node n state' of
             None \<Rightarrow> ([(n, state)], Return (state', st'))
           | Some n' \<Rightarrow>
               (let (trace, out) = run_from e resumes preference_id n' state' st'
                in ((n, state) # trace, out))))"
  by pat_completeness auto
termination
  by (relation "measure (\<lambda>(e, resumes, preference_id, n, state, st). rank n)")
     (auto dest: next_node_rank)

declare run_from.simps [simp del]

section \<open>streamlit_app.py\<close>

text \<open>
  The graph is compiled with an \<open>InMemorySaver\<close>. What it keeps of a thread is the state
  after the last node that completed, the node to run next (none when the last run
  reached the end) and the resume inputs given to a suspended node.
\<close>

record thread =
  thread_values :: GraphInnerState
  thread_next :: "node option"
  thread_resumes :: "string list"

datatype graph_input = Messages "message list" | Command_resume string

record response =
  response_values :: GraphInnerState
  interrupts :: "string list"

text \<open>
  Where a call of \<open>compiled_graph.invoke\<close> enters the graph: the node, the state and the
  resume inputs. A dictionary input appends its messages to the state of the thread
  and enters at \<open>START\<close>; \<open>Command(resume=...)\<close> enters at the next node of the thread, on
  its checkpoint, with the new resume input after those given before.
\<close>

definition entry_point :: "thread \<Rightarrow> graph_input \<Rightarrow> node option \<times> GraphInnerState \<times> string list" where
  "entry_point t input =
     (case input of
        Messages ms \<Rightarrow>
          (Some START, (thread_values t)\<lparr>messages := messages (thread_values t) @ ms\<rparr>, [])
      | Command_resume r \<Rightarrow> (thread_next t, thread_values t, thread_resumes t @ [r]))"

text \<open>
  \<open>compiled_graph.invoke\<close>. A run that raises or suspends leaves as checkpoint the state
  on which the stopping node was entered, that node as the next one, and the resume
  inputs of the run, so that the next resume runs the node again on the same state
  and replays them.
\<close>

definition invoke ::
    "env \<Rightarrow> string \<Rightarrow> thread \<times> store \<Rightarrow> graph_input
      \<Rightarrow> (error + response) \<times> (thread \<times> store)" where
  "invoke e preference_id world input =
     (let (t, st) = world;
          (entry, state, resumes) = entry_point t input
      in case entry of
           None \<Rightarrow> (Inr \<lparr>response_values = state, interrupts = []\<rparr>, (t, st))
         | Some n \<Rightarrow>
             (let (trace, out) = run_from e resumes preference_id n state st;
                  (stopped, checkpoint) = last trace
              in case out of
                   Return (state', st') \<Rightarrow>
                     (Inr \<lparr>response_values = state', interrupts = []\<rparr>,
                      (\<lparr>thread_values = state', thread_next = None, thread_resumes = []\<rparr>, st'))
                 | Interrupt prompt \<Rightarrow>
                     (Inr \<lparr>response_values = checkpoint, interrupts = [prompt]\<rparr>,
                      (\<lparr>thread_values = checkpoint, thread_next = Some stopped,
                        thread_resumes = resumes\<rparr>, st))
                 | Raised err \<Rightarrow>
                     (Inl err,
                      (\<lparr>thread_values = checkpoint, thread_next = Some stopped,
                        thread_resumes = resumes\<rparr>, st))))"

text \<open>
  The part of \<open>st.session_state\<close> the handler writes: the messages shown for the current
  thread, and the flag \<open>awaiting_verification\<close>.
\<close>

record session_state =
  ui_messages :: "message list"
  awaiting_verification :: bool

datatype display = Markdown string | Error string

definition error_msg :: string where
  "error_msg = ''I apologize, but I encountered an error processing your request. Please try again.''"

text \<open>The padlock sign put before an interrupt message, in UTF-8, and a blank.\<close>

definition lock :: string where
  "lock = [CHR 0xF0, CHR 0x9F, CHR 0x94, CHR 0x90, CHR '' '']"

text \<open>
  \<open>handle_user_input\<close>: the new session state, what the assistant's bubble shows, and the
  thread and store as \<open>invoke\<close> left them. An exception of the \<open>try\<close> block, also the
  \<open>IndexError\<close> of \<open>response["messages"][-1]\<close>, ends in the \<open>except\<close> branch.
\<close>

definition handle_user_input ::
    "env option \<Rightarrow> string \<Rightarrow> session_state \<Rightarrow> thread \<times> store \<Rightarrow> string
      \<Rightarrow> (session_state \<times> display) \<times> (thread \<times> store)" where
  "handle_user_input compiled_graph preference_id ss world user_input =
     (case compiled_graph of
        None \<Rightarrow>
          ((ss, Error ''Customer support system is not available. Please try again later.''), world)
      | Some e \<Rightarrow>
          (let ss1 = ss\<lparr>ui_messages := ui_messages ss @ [HumanMessage user_input]\<rparr>;
               (result, world') =
                 (if awaiting_verification ss1
                  then invoke e preference_id world (Command_resume user_input)
                  else invoke e preference_id world (Messages [HumanMessage user_input]))
           in case result of
                Inl err \<Rightarrow> ((ss1, Error error_msg), world')
              | Inr response \<Rightarrow>
                  (let ss2 = (if awaiting_verification ss1
                              then ss1\<lparr>awaiting_verification := False\<rparr> else ss1)
                   in if interrupts response \<noteq> [] then
                        ((ss2\<lparr>awaiting_verification := True\<rparr>,
                          Markdown (lock @ last (interrupts response))), world')
                      else if messages (response_values response) = [] then
                        ((ss2, Error error_msg), world')
                      else
                        (let reply = content (last (messages (response_values response)))
                         in ((ss2\<lparr>ui_messages := ui_messages ss2 @ [AIMessage reply]\<rparr>,
                              Markdown reply), world')))))"

text \<open>The input the handler sends for the text \<open>user_input\<close>.\<close>

definition input_of :: "session_state \<Rightarrow> string \<Rightarrow> graph_input" where
  "input_of ss user_input =
     (if awaiting_verification ss then Command_resume user_input
      else Messages [HumanMessage user_input])"

section \<open>Inputs used in the examples\<close>

text \<open>A thread that has just received its first message, with no identity yet.\<close>

definition fresh_state :: GraphInnerState where
  "fresh_state =
     \<lparr>messages = [HumanMessage ''Hello, what did I buy?''], customer_id = None,
      loaded_preferences = None\<rparr>"

text \<open>A model that answers every request with empty fields.\<close>

definition empty_fields :: CustomerData where
  "empty_fields =
     \<lparr>cd_customer_id = None, cd_customer_phone_number = None, cd_customer_email = None\<rparr>"

definition empty_fields_model :: structured_model where
  "empty_fields_model request = Inr (Some empty_fields)"

text \<open>The request the loop of \<open>verify_customer\<close> builds from a resume input.\<close>

definition resume_request :: "string \<Rightarrow> message list" where
  "resume_request interrupt_result = [SystemMessage system_prompt, HumanMessage interrupt_result]"

text \<open>
  The model answers a request with a record that matches no customer.
\<close>

definition extracts_unmatched :: "structured_model \<Rightarrow> connection \<Rightarrow> message list \<Rightarrow> bool" where
  "extracts_unmatched vm conn request =
     (case vm request of
        Inr (Some cd) \<Rightarrow>
          get_customer_details conn (cd_customer_id cd) (cd_customer_phone_number cd)
            (cd_customer_email cd) = []
      | _ \<Rightarrow> False)"

text \<open>The state carries an identity; the nodes that follow \<open>verify_customer\<close>.\<close>

definition resolved :: "GraphInnerState \<Rightarrow> bool" where
  "resolved state = (\<exists>c. customer_id state = Some (Some c))"

definition after_verification :: "node \<Rightarrow> bool" where
  "after_verification n =
     (n = Extract_preferences \<or> n = Supervisor_agent \<or> n = Save_preferences)"

text \<open>The model answers a request with a record whose three fields are absent or empty.\<close>

definition extracts_empty :: "structured_model \<Rightarrow> message list \<Rightarrow> bool" where
  "extracts_empty vm request =
     (case vm request of
        Inr (Some cd) \<Rightarrow>
          \<not> truthy (cd_customer_id cd) \<and> \<not> truthy (cd_customer_phone_number cd)
            \<and> \<not> truthy (cd_customer_email cd)
      | _ \<Rightarrow> False)"

text \<open>
  Collaborators for a run on the sample data: the model extracts the email of
  \<open>customer_1\<close>, the summarizer keeps the messages, the supervisor adds a reply, and the
  preference model finds nothing to record.
\<close>

definition example_env :: env where
  "example_env =
     \<lparr>customer_db = Some sample_database,
      verificationModel = (\<lambda>request. Inr (Some \<lparr>cd_customer_id = None,
         cd_customer_phone_number = None, cd_customer_email = Some ''customer1@example.com''\<rparr>)),
      preferenceModel = (\<lambda>input previous_preferences. Inr ''No preferences found.''),
      summarization_node = (\<lambda>state. Inr (messages state)),
      supervisor_agent = (\<lambda>state. Inr (messages state @ [AIMessage ''You bought two albums.'']))\<rparr>"




text \<open>Eleven preference records of \<open>customer_1\<close>, and a state after verification.\<close>

definition eleven_preferences :: store where
  "eleven_preferences =
     map (\<lambda>(k, t). \<lparr>item_namespace = (Some ''customer_1'', ''preferences''), item_key = k,
            item_text = t\<rparr>)
       [(''k01'', ''likes Jazz''), (''k02'', ''likes Rock''), (''k03'', ''likes Blues''),
        (''k04'', ''likes Pop''), (''k05'', ''likes Metal''), (''k06'', ''likes Latin''),
        (''k07'', ''likes Opera''), (''k08'', ''likes Reggae''), (''k09'', ''likes World''),
        (''k10'', ''likes Comedy''), (''k11'', ''dislikes Jazz'')]"

definition verified_state :: GraphInnerState where
  "verified_state =
     \<lparr>messages = [HumanMessage ''Recommend me something''],
      customer_id = Some (Some ''customer_1''), loaded_preferences = None\<rparr>"


text \<open>A state as \<open>save_preferences\<close> finds it, with nothing loaded.\<close>

definition loaded_state :: GraphInnerState where
  "loaded_state =
     \<lparr>messages = [HumanMessage ''I love Jazz'', AIMessage ''Here are some Jazz tracks.''],
      customer_id = Some (Some ''customer_1''), loaded_preferences = Some []\<rparr>"

text \<open>A thread and a session before the first message; a supervisor that raises.\<close>

definition new_thread :: thread where
  "new_thread =
     \<lparr>thread_values = \<lparr>messages = [], customer_id = None, loaded_preferences = None\<rparr>,
      thread_next = None, thread_resumes = []\<rparr>"

definition new_session :: session_state where
  "new_session = \<lparr>ui_messages = [], awaiting_verification = False\<rparr>"

definition failing_env :: env where
  "failing_env = example_env\<lparr>supervisor_agent := (\<lambda>state. Inl ExternalCallError)\<rparr>"

text \<open>
  The same collaborators with a model that raises on the resume input \<open>x\<close>, extracts the
  email of \<open>customer_1\<close> from the resume input that is that email, and extracts nothing
  otherwise.
\<close>

definition flaky_env :: env where
  "flaky_env =
     example_env
       \<lparr>verificationModel := (\<lambda>request.
          if request = resume_request ''x'' then Inl ExternalCallError
          else if request = resume_request ''customer1@example.com''
            then Inr (Some \<lparr>cd_customer_id = None, cd_customer_phone_number = None,
                   cd_customer_email = Some ''customer1@example.com''\<rparr>)
            else Inr (Some empty_fields))\<rparr>"

text \<open>The same collaborators when SQLite raises on every query.\<close>

definition database_down_env :: env where
  "database_down_env = example_env\<lparr>customer_db := None\<rparr>"

text \<open>
  A customers table with a row whose \<open>id\<close> is \<open>NULL\<close>, and a model that extracts the phone
  number of that row.
\<close>

definition null_id_database :: database where
  "null_id_database =
     \<lparr>customers =
        [\<lparr>cust_id = None, cust_phone_number = ''+1 555 0100'',
          cust_email = ''nobody@example.com''\<rparr>],
      invoices = []\<rparr>"

definition null_id_env :: env where
  "null_id_env =
     example_env
       \<lparr>customer_db := Some null_id_database,
        verificationModel := (\<lambda>request. Inr (Some \<lparr>cd_customer_id = None,
           cd_customer_phone_number = Some ''+1 555 0100'', cd_customer_email = None\<rparr>))\<rparr>"

text \<open>
  The extraction answered to \<open>request\<close> matches a row of the customers table, whose id
  is \<open>v\<close>: the lookup with the extracted fields is not empty and holds \<open>v\<close> under
  \<open>customer_id\<close>.
\<close>

definition lookup_match :: "structured_model \<Rightarrow> connection \<Rightarrow> message list \<Rightarrow> string option \<Rightarrow> bool" where
  "lookup_match vm conn request v =
     (\<exists>cd db row.
        vm request = Inr (Some cd)
        \<and> get_customer_details conn (cd_customer_id cd) (cd_customer_phone_number cd)
              (cd_customer_email cd) \<noteq> []
        \<and> map_of (get_customer_details conn (cd_customer_id cd) (cd_customer_phone_number cd)
              (cd_customer_email cd)) ''customer_id'' = Some v
        \<and> conn = Some db \<and> row \<in> set (customers db) \<and> cust_id row = v)"

section \<open>Properties of the customer database\<close>

lemma conditions_empty_iff:
  "conditions cid phone mail = [] \<longleftrightarrow> \<not> truthy cid \<and> \<not> truthy phone \<and> \<not> truthy mail"
  by (auto simp: conditions_def condition_def truthy_def split: option.splits)

text \<open>An error of SQLite reads as no match.\<close>

lemma database_error_reads_as_no_match:
  "get_customer_details None cid phone mail = []
   \<and> check_customer_exists None cid phone mail = False"
  by (simp add: get_customer_details_def check_customer_exists_def)

lemma mset_insert_desc: "mset (insert_desc key x xs) = add_mset x (mset xs)"
  by (induction xs) simp_all

lemma mset_order_by_desc: "mset (order_by_desc key rows) = mset rows"
  unfolding order_by_desc_def by (induction rows) (simp_all add: mset_insert_desc)

lemma set_insert_desc: "set (insert_desc key x xs) = insert x (set xs)"
  by (induction xs) auto

lemma sorted_insert_desc:
  "sorted_wrt (\<lambda>a b. key b \<le> key a) xs \<Longrightarrow> sorted_wrt (\<lambda>a b. key b \<le> key a) (insert_desc key x xs)"
  by (induction xs) (auto simp: set_insert_desc)

lemma sorted_order_by_desc: "sorted_wrt (\<lambda>a b. key b \<le> key a) (order_by_desc key rows)"
  unfolding order_by_desc_def by (induction rows) (simp_all add: sorted_insert_desc)


section \<open>Properties of customer verification\<close>



lemma verify_loop_unmatched:
  "\<forall>r\<in>set resumes. extracts_unmatched vm conn [SystemMessage system_prompt, HumanMessage r]
   \<Longrightarrow> verify_loop vm conn (Some cd) [] resumes
       = (map (\<lambda>r. [SystemMessage system_prompt, HumanMessage r]) resumes,
          Interrupt ''Please provide your phone number or email for verification.'')"
proof (induction resumes arbitrary: cd)
  case Nil
  show ?case by (simp add: interrupt_prompt_def)
next
  case (Cons r resumes)
  from Cons.prems obtain cd' where
    vm: "vm [SystemMessage system_prompt, HumanMessage r] = Inr (Some cd')" and
    db: "get_customer_details conn (cd_customer_id cd') (cd_customer_phone_number cd')
           (cd_customer_email cd') = []"
    by (auto simp: extracts_unmatched_def split: sum.splits option.splits)
  from Cons.prems have rest:
    "\<forall>r\<in>set resumes. extracts_unmatched vm conn [SystemMessage system_prompt, HumanMessage r]"
    by simp
  show ?case
    using Cons.IH [OF rest, of cd'] vm db
    by (simp add: customer_details_of_def)
qed

lemma verify_customer_unmatched:
  assumes "extracts_unmatched vm conn (SystemMessage system_prompt # messages state)"
    and "\<forall>r\<in>set resumes. extracts_unmatched vm conn [SystemMessage system_prompt, HumanMessage r]"
  shows "verify_customer vm conn state resumes
       = ((SystemMessage system_prompt # messages state)
            # map (\<lambda>r. [SystemMessage system_prompt, HumanMessage r]) resumes,
          Interrupt ''Please provide your phone number or email for verification.'')"
proof -
  from assms(1) obtain cd where
    vm: "vm (SystemMessage system_prompt # messages state) = Inr (Some cd)" and
    db: "get_customer_details conn (cd_customer_id cd) (cd_customer_phone_number cd)
           (cd_customer_email cd) = []"
    by (auto simp: extracts_unmatched_def split: sum.splits option.splits)
  show ?thesis
    using verify_loop_unmatched [OF assms(2), of cd] vm db
    by (simp add: verify_customer_def customer_details_of_def)
qed

lemma fetchone_in_set: "fetchone conds rows = Some row \<Longrightarrow> row \<in> set rows"
  unfolding fetchone_def by (auto simp: find_Some_iff)

lemma get_customer_details_row:
  assumes "get_customer_details conn a b c \<noteq> []"
  shows "\<exists>db row. conn = Some db \<and> row \<in> set (customers db)
           \<and> map_of (get_customer_details conn a b c) ''customer_id'' = Some (cust_id row)
           \<and> verified_update (get_customer_details conn a b c) = Return (cust_id row)"
proof -
  from assms obtain db where db: "conn = Some db"
    by (cases conn) (auto simp: get_customer_details_def)
  from assms db obtain row where
    row: "fetchone (conditions a b c) (customers db) = Some row"
    and conds: "conditions a b c \<noteq> []"
    by (auto simp: get_customer_details_def Let_def split: if_splits option.splits)
  from row have "row \<in> set (customers db)" by (rule fetchone_in_set)
  with db row conds show ?thesis
    by (cases "cust_id row") (auto simp: get_customer_details_def verified_update_def)
qed

lemma lookup_matchI:
  assumes "vm request = Inr (Some cd)"
    and "customer_details_of conn (Some cd) = Inr d"
    and "d \<noteq> []"
    and "verified_update d = Return v"
  shows "lookup_match vm conn request v"
proof -
  from assms(2) have d: "d = get_customer_details conn (cd_customer_id cd)
      (cd_customer_phone_number cd) (cd_customer_email cd)"
    by (simp add: customer_details_of_def)
  from get_customer_details_row [of conn "cd_customer_id cd" "cd_customer_phone_number cd"
      "cd_customer_email cd"] assms(3,4) d assms(1)
  show ?thesis
    unfolding lookup_match_def by auto
qed

lemma verify_loop_returns_match:
  "vm request0 = Inr sr \<Longrightarrow> customer_details_of conn sr = Inr d
   \<Longrightarrow> snd (verify_loop vm conn sr d rs) = Return v
   \<Longrightarrow> \<exists>request\<in>set (request0 # fst (verify_loop vm conn sr d rs)). lookup_match vm conn request v"
proof (induction rs arbitrary: request0 sr d)
  case Nil
  from Nil.prems(2) obtain cd where sr: "sr = Some cd"
    by (cases sr) (auto simp: customer_details_of_def)
  from Nil.prems(3) have d: "d \<noteq> []" and v: "verified_update d = Return v"
    by (auto split: if_splits)
  from lookup_matchI [OF _ _ d v] Nil.prems(1,2) sr show ?case by simp
next
  case (Cons r rs)
  show ?case
  proof (cases "d = []")
    case False
    from Cons.prems(2) obtain cd where sr: "sr = Some cd"
      by (cases sr) (auto simp: customer_details_of_def)
    from Cons.prems(3) False have v: "verified_update d = Return v" by simp
    from lookup_matchI [OF _ _ False v] Cons.prems(1,2) sr show ?thesis by simp
  next
    case True
    let ?request = "[SystemMessage system_prompt, HumanMessage r]"
    from Cons.prems(3) True obtain sr' d' where
      vm: "vm ?request = Inr sr'" and
      cd: "customer_details_of conn sr' = Inr d'" and
      rest: "snd (verify_loop vm conn sr' d' rs) = Return v"
      by (auto simp: Let_def split: sum.splits prod.splits)
    from Cons.IH [OF vm cd rest] obtain request where
      "request \<in> set (?request # fst (verify_loop vm conn sr' d' rs))"
      "lookup_match vm conn request v" by blast
    moreover have "fst (verify_loop vm conn sr d (r # rs))
        = ?request # fst (verify_loop vm conn sr' d' rs)"
      using True vm cd by (simp add: Let_def split: prod.splits)
    ultimately show ?thesis by auto
  qed
qed

lemma verify_customer_returns_match:
  assumes "snd (verify_customer vm conn state resumes) = Return v"
  shows "\<exists>request\<in>set (fst (verify_customer vm conn state resumes)). lookup_match vm conn request v"
proof -
  let ?request = "SystemMessage system_prompt # messages state"
  from assms obtain sr d where
    vm: "vm ?request = Inr sr" and
    cd: "customer_details_of conn sr = Inr d" and
    loop: "snd (verify_loop vm conn sr d resumes) = Return v"
    by (auto simp: verify_customer_def Let_def split: sum.splits prod.splits)
  have "fst (verify_customer vm conn state resumes)
      = ?request # fst (verify_loop vm conn sr d resumes)"
    using vm cd by (simp add: verify_customer_def Let_def split: prod.splits)
  with verify_loop_returns_match [OF vm cd loop] show ?thesis by simp
qed

lemma get_customer_details_empty:
  "\<not> truthy cid \<Longrightarrow> \<not> truthy phone \<Longrightarrow> \<not> truthy mail
   \<Longrightarrow> get_customer_details conn cid phone mail = []"
  using conditions_empty_iff [of cid phone mail]
  by (simp add: get_customer_details_def split: option.splits)

lemma extracts_empty_unmatched: "extracts_empty vm request \<Longrightarrow> extracts_unmatched vm conn request"
  by (auto simp: extracts_empty_def extracts_unmatched_def get_customer_details_empty
      split: sum.splits option.splits)

lemma missing_extraction_raises:
  "vm (SystemMessage system_prompt # messages state) = Inr None
   \<Longrightarrow> verify_customer vm conn state resumes
       = ([SystemMessage system_prompt # messages state], Raised AttributeError)"
  by (simp add: verify_customer_def customer_details_of_def)

lemma interrupt_prompt_could_not_parse:
  "interrupt_prompt sr
     = ''Could not parse the response. Please provide the information in the correct format.''
   \<longleftrightarrow> sr = None"
  by (cases sr) (simp_all add: interrupt_prompt_def)

section \<open>Properties of the graph\<close>

lemma run_node_customer_id:
  assumes "run_node e resumes pid n state st = Return (state', st')"
    and "n \<noteq> Verify_customer"
  shows "customer_id state' = customer_id state"
  using assms
  by (cases n)
     (auto simp: save_preferences_def Let_def
       split: sum.splits outcome.splits option.splits if_splits)

lemma run_from_keeps_customer_id:
  "after_verification n
   \<Longrightarrow> (m, s) \<in> set (fst (run_from e resumes pid n state st))
   \<Longrightarrow> customer_id s = customer_id state"
proof (induction e resumes pid n state st rule: run_from.induct)
  case (1 e resumes pid n state st)
  show ?case
  proof (cases "run_node e resumes pid n state st")
    case (Raised err)
    with "1.prems" show ?thesis by (simp add: run_from.simps [of e resumes pid n])
  next
    case (Interrupt prompt)
    with "1.prems" show ?thesis by (simp add: run_from.simps [of e resumes pid n])
  next
    case (Return r)
    obtain state' st' where r: "r = (state', st')" by (cases r)
    show ?thesis
    proof (cases "next_node n state'")
      case None
      with Return r "1.prems" show ?thesis by (simp add: run_from.simps [of e resumes pid n])
    next
      case (Some n')
      from Return r have rn: "run_node e resumes pid n state st = Return (state', st')" by simp
      from "1.prems"(1) have nv: "n \<noteq> Verify_customer"
        by (auto simp: after_verification_def)
      have same: "customer_id state' = customer_id state"
        using run_node_customer_id [OF rn nv] .
      from "1.prems"(1) Some have after: "after_verification n'"
        by (auto simp: after_verification_def next_node_def conditional_edges_def edges_def
            split: if_splits)
      from "1.prems"(2) Return r Some
      have "(m, s) = (n, state) \<or> (m, s) \<in> set (fst (run_from e resumes pid n' state' st'))"
        by (auto simp: run_from.simps [of e resumes pid n] split: prod.splits)
      then show ?thesis
      proof
        assume "(m, s) = (n, state)"
        then show ?thesis by simp
      next
        assume "(m, s) \<in> set (fst (run_from e resumes pid n' state' st'))"
        from "1.IH" [OF rn refl Some after this] same show ?thesis by simp
      qed
    qed
  qed
qed

lemma run_from_head: "fst (run_from e resumes pid n state st) \<noteq> []
  \<and> hd (fst (run_from e resumes pid n state st)) = (n, state)"
  by (simp add: run_from.simps [of e resumes pid n]
      split: outcome.splits option.splits prod.splits)

lemma run_from_step:
  assumes "run_node e resumes pid n state st = Return (state', st')"
    and "next_node n state' = Some n'"
  shows "fst (run_from e resumes pid n state st)
           = (n, state) # fst (run_from e resumes pid n' state' st')"
  using assms by (simp add: run_from.simps [of e resumes pid n] split: prod.splits)

lemma run_node_verify_match:
  assumes "run_node e resumes pid Verify_customer state st = Return (state', st')"
  shows "\<exists>v. customer_id state' = Some v
    \<and> (\<exists>request\<in>set (fst (verify_customer (verificationModel e) (customer_db e) state resumes)).
          lookup_match (verificationModel e) (customer_db e) request v)"
proof -
  from assms obtain v where
    v: "snd (verify_customer (verificationModel e) (customer_db e) state resumes) = Return v"
    and s: "state' = state\<lparr>customer_id := Some v\<rparr>"
    by (auto split: outcome.splits)
  from verify_customer_returns_match [OF v] s show ?thesis by auto
qed

lemma run_from_verify:
  assumes "(m, s) \<in> set (fst (run_from e resumes pid Verify_customer s1 st))"
    and "after_verification m"
  shows "\<exists>v. customer_id s = Some v
    \<and> (\<exists>request\<in>set (fst (verify_customer (verificationModel e) (customer_db e) s1 resumes)).
          lookup_match (verificationModel e) (customer_db e) request v)"
proof (cases "run_node e resumes pid Verify_customer s1 st")
  case (Raised err)
  with assms show ?thesis
    by (simp add: run_from.simps [of e resumes pid Verify_customer] after_verification_def)
next
  case (Interrupt prompt)
  with assms show ?thesis
    by (simp add: run_from.simps [of e resumes pid Verify_customer] after_verification_def)
next
  case (Return r)
  obtain state' st' where r: "r = (state', st')" by (cases r)
  with Return have rn:
    "run_node e resumes pid Verify_customer s1 st = Return (state', st')" by simp
  have nx: "next_node Verify_customer state' = Some Extract_preferences"
    by (simp add: next_node_def conditional_edges_def edges_def)
  from assms have "(m, s) \<in> set (fst (run_from e resumes pid Extract_preferences state' st'))"
    unfolding run_from_step [OF rn nx] by (auto simp: after_verification_def)
  from run_from_keeps_customer_id [OF _ this]
  have "customer_id s = customer_id state'" by (simp add: after_verification_def)
  with run_node_verify_match [OF rn] show ?thesis by simp
qed

lemma run_from_summarize:
  assumes "(m, s) \<in> set (fst (run_from e resumes pid Summarize_conversation state st))"
    and "after_verification m"
  shows "(resolved state \<and> customer_id s = customer_id state)
    \<or> (\<exists>s1 v. (Verify_customer, s1)
            \<in> set (fst (run_from e resumes pid Summarize_conversation state st))
          \<and> customer_id s = Some v
          \<and> (\<exists>request\<in>set (fst (verify_customer (verificationModel e) (customer_db e) s1
                 resumes)).
                lookup_match (verificationModel e) (customer_db e) request v))"
proof (cases "run_node e resumes pid Summarize_conversation state st")
  case (Raised err)
  with assms show ?thesis
    by (simp add: run_from.simps [of e resumes pid Summarize_conversation]
        after_verification_def)
next
  case (Interrupt prompt)
  with assms show ?thesis
    by (simp add: run_from.simps [of e resumes pid Summarize_conversation]
        after_verification_def)
next
  case (Return r)
  obtain state' st' where r: "r = (state', st')" by (cases r)
  with Return have rn:
    "run_node e resumes pid Summarize_conversation state st = Return (state', st')" by simp
  have same: "customer_id state' = customer_id state"
    using run_node_customer_id [OF rn] by simp
  show ?thesis
  proof (cases "should_verify_customer state'")
    case True
    then have nx: "next_node Summarize_conversation state' = Some Verify_customer"
      by (simp add: next_node_def conditional_edges_def)
    have head: "(Verify_customer, state')
        \<in> set (fst (run_from e resumes pid Verify_customer state' st'))"
      using run_from_head [of e resumes pid Verify_customer state' st']
      by (metis hd_in_set)
    from assms have "(m, s) \<in> set (fst (run_from e resumes pid Verify_customer state' st'))"
      unfolding run_from_step [OF rn nx] by (auto simp: after_verification_def)
    from run_from_verify [OF this assms(2)] head show ?thesis
      unfolding run_from_step [OF rn nx] by auto
  next
    case False
    then have nx: "next_node Summarize_conversation state' = Some Extract_preferences"
      by (simp add: next_node_def conditional_edges_def)
    from False same have res: "resolved state"
      by (cases "customer_id state")
         (auto simp: should_verify_customer_def resolved_def split: if_splits)
    from assms have "(m, s) \<in> set (fst (run_from e resumes pid Extract_preferences state' st'))"
      unfolding run_from_step [OF rn nx] by (auto simp: after_verification_def)
    from run_from_keeps_customer_id [OF _ this] same res show ?thesis
      by (simp add: after_verification_def)
  qed
qed

lemma run_from_start:
  assumes "(m, s) \<in> set (fst (run_from e resumes pid START state st))"
    and "after_verification m"
  shows "(resolved state \<and> customer_id s = customer_id state)
    \<or> (\<exists>s1 v. (Verify_customer, s1) \<in> set (fst (run_from e resumes pid START state st))
          \<and> customer_id s = Some v
          \<and> (\<exists>request\<in>set (fst (verify_customer (verificationModel e) (customer_db e) s1
                 resumes)).
                lookup_match (verificationModel e) (customer_db e) request v))"
proof -
  have rn: "run_node e resumes pid START state st = Return (state, st)" by simp
  have nx: "next_node START state = Some Summarize_conversation"
    by (simp add: next_node_def conditional_edges_def edges_def)
  from assms have "(m, s) \<in> set (fst (run_from e resumes pid Summarize_conversation state st))"
    unfolding run_from_step [OF rn nx] by (auto simp: after_verification_def)
  from run_from_summarize [OF this assms(2)] show ?thesis
    unfolding run_from_step [OF rn nx] by auto
qed

section \<open>Properties of the preference store\<close>

lemma search_all_below_limit:
  "length (filter (\<lambda>i. item_namespace i = ns) st) \<le> search_default_limit
   \<Longrightarrow> search st ns = filter (\<lambda>i. item_namespace i = ns) st"
  by (simp add: search_def)

lemma extract_preferences_empty:
  "customer_id state = Some cid
   \<Longrightarrow> filter (\<lambda>i. item_namespace i = (cid, ''preferences'')) st = []
   \<Longrightarrow> extract_preferences st state = Return []"
  by (simp add: extract_preferences_def search_def)

lemma run_node_extract_preferences_reads_only:
  "run_node e resumes pid Extract_preferences state st = Return (state', st')
   \<Longrightarrow> st' = st \<and> messages state' = messages state \<and> customer_id state' = customer_id state"
  by (auto split: outcome.splits)

lemma filter_upsert_length:
  "length (filter (\<lambda>i. item_namespace i = ns') st)
     \<le> length (filter (\<lambda>i. item_namespace i = ns') (upsert st ns k v))"
  by (induction st) auto

lemma upsert_fresh:
  "\<forall>i\<in>set st. item_namespace i = ns \<longrightarrow> item_key i \<noteq> k
   \<Longrightarrow> upsert st ns k v = st @ [\<lparr>item_namespace = ns, item_key = k, item_text = v\<rparr>]"
  by (induction st) auto

lemma upsert_present:
  "item_namespace i = ns \<Longrightarrow> item_key i = k
   \<Longrightarrow> \<forall>j\<in>set pre. \<not> (item_namespace j = ns \<and> item_key j = k)
   \<Longrightarrow> upsert (pre @ i # post) ns k v = pre @ i\<lparr>item_text := v\<rparr> # post"
  by (induction pre) auto

lemma save_preferences_never_removes:
  "save_preferences pm pid st state = Return (state', st')
   \<Longrightarrow> length (filter (\<lambda>i. item_namespace i = ns) st)
       \<le> length (filter (\<lambda>i. item_namespace i = ns) st')"
  by (auto simp: save_preferences_def put_def filter_upsert_length
      split: option.splits sum.splits if_splits)

lemma run_node_store:
  "run_node e resumes pid n state st = Return (state', st') \<Longrightarrow> next_node n state' = Some n'
   \<Longrightarrow> st' = st"
  by (cases n)
     (auto simp: next_node_def conditional_edges_def edges_def
       split: sum.splits outcome.splits if_splits)

lemma run_from_raised_at_last:
  "snd (run_from e resumes pid n state st) = Raised err
   \<Longrightarrow> run_node e resumes pid (fst (last (fst (run_from e resumes pid n state st))))
         (snd (last (fst (run_from e resumes pid n state st)))) st = Raised err"
proof (induction e resumes pid n state st rule: run_from.induct)
  case (1 e resumes pid n state st)
  show ?case
  proof (cases "run_node e resumes pid n state st")
    case (Raised err')
    with "1.prems" show ?thesis by (simp add: run_from.simps [of e resumes pid n])
  next
    case (Interrupt prompt)
    with "1.prems" show ?thesis by (simp add: run_from.simps [of e resumes pid n])
  next
    case (Return r)
    obtain state' st' where r: "r = (state', st')" by (cases r)
    show ?thesis
    proof (cases "next_node n state'")
      case None
      with Return r "1.prems" show ?thesis by (simp add: run_from.simps [of e resumes pid n])
    next
      case (Some n')
      from Return r have rn: "run_node e resumes pid n state st = Return (state', st')" by simp
      have st: "st' = st" using run_node_store [OF rn Some] .
      from "1.prems" rn Some
      have rest: "snd (run_from e resumes pid n' state' st') = Raised err"
        by (simp add: run_from.simps [of e resumes pid n] split: prod.splits)
      have "last (fst (run_from e resumes pid n state st))
              = last (fst (run_from e resumes pid n' state' st'))"
        using run_from_head [of e resumes pid n' state' st']
        by (simp add: run_from_step [OF rn Some])
      with "1.IH" [OF rn refl Some rest] st show ?thesis by simp
    qed
  qed
qed


lemmas evaluation = example_env_def fresh_state_def next_node_def conditional_edges_def
        edges_def should_verify_customer_def verify_customer_def customer_details_of_def
        get_customer_details_def conditions_def condition_def fetchone_def sample_database_def
        sample_customers_def verified_update_def extract_preferences_def search_def
        save_preferences_def last_human_message_content_def is_human_def lower_def strip_def
        is_space_def lower_char_def upper_case_def lower_case_def put_def valid_namespace_def
        valid_label_def interrupt_prompt_def

text \<open>
  A resume input on which the node raised stays with the checkpoint: the next resume
  replays it, and the node raises again.
\<close>

lemma replayed_resume_fails_again:
  "(let (r1, w1) = handle_user_input (Some flaky_env) ''id-1'' new_session (new_thread, []) ''Hello'';
        (r2, w2) = handle_user_input (Some flaky_env) ''id-2'' (fst r1) w1 ''x'';
        (r3, w3) = handle_user_input (Some flaky_env) ''id-3'' (fst r2) w2 ''customer1@example.com''
    in snd r1 = Markdown (lock @ ''Please provide your phone number or email for verification.'')
       \<and> snd r2 = Error error_msg
       \<and> snd r3 = Error error_msg
       \<and> thread_next (fst w3) = Some Verify_customer
       \<and> thread_resumes (fst w3) = [''x'', ''customer1@example.com''])"
proof -
  let ?state = "\<lparr>messages = [HumanMessage ''Hello''], customer_id = None,
        loaded_preferences = None\<rparr>"
  have run1: "run_from flaky_env [] ''id-1'' START ?state []
    = ([(START, ?state), (Summarize_conversation, ?state), (Verify_customer, ?state)],
       Interrupt ''Please provide your phone number or email for verification.'')"
    by (simp add: run_from.simps flaky_env_def resume_request_def empty_fields_def evaluation)
  have run2: "run_from flaky_env [''x''] ''id-2'' Verify_customer ?state []
    = ([(Verify_customer, ?state)], Raised ExternalCallError)"
    by (simp add: run_from.simps flaky_env_def resume_request_def empty_fields_def evaluation)
  have run3: "run_from flaky_env [''x'', ''customer1@example.com''] ''id-3'' Verify_customer ?state []
    = ([(Verify_customer, ?state)], Raised ExternalCallError)"
    by (simp add: run_from.simps flaky_env_def resume_request_def empty_fields_def evaluation)
  show ?thesis
    by (simp add: handle_user_input_def invoke_def entry_point_def new_session_def
        new_thread_def run1 run2 run3)
qed

section \<open>The claims\<close>

text \<open>
  C1. In a run of the graph, entered at \<open>START\<close> for a new turn, at \<open>verify_customer\<close>
  to resume a suspended verification, or at any node whose checkpoint carries an
  identity if the node follows verification, every state with which
  \<open>extract_preferences\<close>, \<open>supervisor_agent\<close> or \<open>save_preferences\<close> is entered either has
  the identity the run started with, or the run passed through \<open>verify_customer\<close>,
  which returned after a lookup with fields the model extracted gave a row of the
  customers table: the state then has the \<open>id\<close> of that row as its \<open>customer_id\<close>, which
  is \<open>None\<close> when the \<open>id\<close> is \<open>NULL\<close>.
\<close>

theorem identity_after_verification:
  assumes "after_verification n0 \<longrightarrow> (\<exists>c. customer_id s0 = Some (Some c))"
    and "(m, s) \<in> set (fst (run_from e resumes pid n0 s0 st))"
    and "m = Extract_preferences \<or> m = Supervisor_agent \<or> m = Save_preferences"
  shows "((\<exists>c. customer_id s0 = Some (Some c)) \<and> customer_id s = customer_id s0)
    \<or> (\<exists>s1 request cd db row.
          (Verify_customer, s1) \<in> set (fst (run_from e resumes pid n0 s0 st))
          \<and> request \<in> set (fst (verify_customer (verificationModel e) (customer_db e) s1 resumes))
          \<and> verificationModel e request = Inr (Some cd)
          \<and> get_customer_details (customer_db e) (cd_customer_id cd)
                (cd_customer_phone_number cd) (cd_customer_email cd) \<noteq> []
          \<and> map_of (get_customer_details (customer_db e) (cd_customer_id cd)
                (cd_customer_phone_number cd) (cd_customer_email cd)) ''customer_id''
              = Some (cust_id row)
          \<and> customer_db e = Some db \<and> row \<in> set (customers db)
          \<and> customer_id s = Some (cust_id row))"
proof -
  from assms(3) have m: "after_verification m"
    by (simp add: after_verification_def)
  have "(resolved s0 \<and> customer_id s = customer_id s0)
    \<or> (\<exists>s1 v. (Verify_customer, s1) \<in> set (fst (run_from e resumes pid n0 s0 st))
          \<and> customer_id s = Some v
          \<and> (\<exists>request\<in>set (fst (verify_customer (verificationModel e) (customer_db e) s1
                 resumes)).
                lookup_match (verificationModel e) (customer_db e) request v))"
  proof (cases n0)
    case START
    with assms(2) run_from_start [of m s e resumes pid s0 st] m show ?thesis by simp
  next
    case Summarize_conversation
    with assms(2) run_from_summarize [of m s e resumes pid s0 st] m show ?thesis by simp
  next
    case Verify_customer
    have head: "(Verify_customer, s0) \<in> set (fst (run_from e resumes pid Verify_customer s0 st))"
      using run_from_head [of e resumes pid Verify_customer s0 st]
      by (metis hd_in_set)
    from assms(2) Verify_customer
    have "(m, s) \<in> set (fst (run_from e resumes pid Verify_customer s0 st))" by simp
    from run_from_verify [OF this m] head Verify_customer show ?thesis by auto
  next
    case Extract_preferences
    with run_from_keeps_customer_id [OF _ assms(2)] assms(1) show ?thesis
      by (simp add: after_verification_def resolved_def)
  next
    case Supervisor_agent
    with run_from_keeps_customer_id [OF _ assms(2)] assms(1) show ?thesis
      by (simp add: after_verification_def resolved_def)
  next
    case Save_preferences
    with run_from_keeps_customer_id [OF _ assms(2)] assms(1) show ?thesis
      by (simp add: after_verification_def resolved_def)
  qed
  then show ?thesis
    unfolding lookup_match_def resolved_def by blast
qed

theorem identity_after_verification_witness:
  "(Extract_preferences, fresh_state\<lparr>customer_id := Some (Some ''customer_1'')\<rparr>)
      \<in> set (fst (run_from example_env [] ''id-1'' START fresh_state []))
   \<and> (\<exists>s1 request cd db row.
          (Verify_customer, s1) \<in> set (fst (run_from example_env [] ''id-1'' START fresh_state []))
          \<and> request \<in> set (fst (verify_customer (verificationModel example_env)
                (customer_db example_env) s1 []))
          \<and> verificationModel example_env request = Inr (Some cd)
          \<and> get_customer_details (customer_db example_env) (cd_customer_id cd)
                (cd_customer_phone_number cd) (cd_customer_email cd) \<noteq> []
          \<and> map_of (get_customer_details (customer_db example_env) (cd_customer_id cd)
                (cd_customer_phone_number cd) (cd_customer_email cd)) ''customer_id''
              = Some (cust_id row)
          \<and> customer_db example_env = Some db \<and> row \<in> set (customers db)
          \<and> customer_id (fresh_state\<lparr>customer_id := Some (Some ''customer_1'')\<rparr>)
              = Some (cust_id row))"
proof -
  have run: "(Extract_preferences, fresh_state\<lparr>customer_id := Some (Some ''customer_1'')\<rparr>)
      \<in> set (fst (run_from example_env [] ''id-1'' START fresh_state []))"
    by (simp add: run_from.simps evaluation)
  have "\<not> (\<exists>c. customer_id fresh_state = Some (Some c))"
    by (simp add: fresh_state_def)
  with identity_after_verification [OF _ run] run show ?thesis
    by (simp add: after_verification_def)
qed

text \<open>
  The customers table holds a row whose \<open>id\<close> is \<open>NULL\<close> and the model extracts its phone
  number: \<open>verify_customer\<close> returns \<open>customer_id\<close> \<open>None\<close> and \<open>extract_preferences\<close> is
  entered with it.
\<close>

theorem null_id_counterexample:
  "(Extract_preferences, fresh_state\<lparr>customer_id := Some None\<rparr>)
      \<in> set (fst (run_from null_id_env [] ''id-1'' START fresh_state []))
   \<and> customer_id (fresh_state\<lparr>customer_id := Some None\<rparr>) = Some None"
  by (simp add: run_from.simps null_id_env_def null_id_database_def evaluation)

text \<open>
  C2. After \<open>summarize_conversation\<close> the graph goes to \<open>verify_customer\<close> exactly when
  the state has no \<open>customer_id\<close> key or its \<open>customer_id\<close> is \<open>None\<close>, and to
  \<open>extract_preferences\<close> exactly when \<open>customer_id\<close> is set; one of the two is always
  taken.
\<close>

theorem should_verify_customer_routes:
  "(next_node Summarize_conversation state = Some Verify_customer
      \<longleftrightarrow> customer_id state = None \<or> customer_id state = Some None)
   \<and> (next_node Summarize_conversation state = Some Extract_preferences
      \<longleftrightarrow> (\<exists>c. customer_id state = Some (Some c)))
   \<and> (next_node Summarize_conversation state = Some Verify_customer
      \<or> next_node Summarize_conversation state = Some Extract_preferences)"
  by (cases "customer_id state")
     (auto simp: next_node_def conditional_edges_def should_verify_customer_def)


text \<open>
  C3. The extraction returns a record with no id, no phone number and no email, and no
  customer is matched: the node suspends with the prompt asking for a phone number or
  an email, not with the one that says the response could not be parsed.
\<close>

theorem empty_extraction_prompt:
  "\<not> truthy (cd_customer_id empty_fields) \<and> \<not> truthy (cd_customer_phone_number empty_fields)
   \<and> \<not> truthy (cd_customer_email empty_fields)
   \<and> empty_fields_model (SystemMessage system_prompt # messages fresh_state) = Inr (Some empty_fields)
   \<and> snd (verify_customer empty_fields_model (Some sample_database) fresh_state [])
       = Interrupt ''Please provide your phone number or email for verification.''
   \<and> snd (verify_customer empty_fields_model (Some sample_database) fresh_state [])
       \<noteq> Interrupt ''Could not parse the response. Please provide the information in the correct format.''"
  by (simp add: verify_customer_def customer_details_of_def get_customer_details_def
        conditions_def condition_def empty_fields_model_def empty_fields_def
        interrupt_prompt_def truthy_def)





text \<open>
  C5. When a node raises during a turn, whatever the exception, \<open>handle_user_input\<close>
  returns with the apology in the assistant's bubble and the flag
  \<open>awaiting_verification\<close> as it was. The store is as before the turn. The thread keeps
  as checkpoint the state on which the failing node was entered, that node as the
  next to run and the resume inputs of the failing run, so that a later resume enters
  at the failing node on that state and replays them, and a later message enters at
  \<open>START\<close> on that state. An error of SQLite raises nothing: the methods of
  \<open>CustomerDatabase\<close> return their empty result.
\<close>

theorem stage_failure_apology:
  assumes "entry_point t (input_of ss u) = (Some n, state, resumes)"
    and "snd (run_from e resumes pid n state st) = Raised err"
  shows "handle_user_input (Some e) pid ss (t, st) u
           = ((ss\<lparr>ui_messages := ui_messages ss @ [HumanMessage u]\<rparr>, Error error_msg),
              (\<lparr>thread_values = snd (last (fst (run_from e resumes pid n state st))),
                thread_next = Some (fst (last (fst (run_from e resumes pid n state st)))),
                thread_resumes = resumes\<rparr>, st))
    \<and> run_node e resumes pid (fst (last (fst (run_from e resumes pid n state st))))
          (snd (last (fst (run_from e resumes pid n state st)))) st = Raised err
    \<and> entry_point
          \<lparr>thread_values = snd (last (fst (run_from e resumes pid n state st))),
            thread_next = Some (fst (last (fst (run_from e resumes pid n state st)))),
            thread_resumes = resumes\<rparr> (Command_resume r)
        = (Some (fst (last (fst (run_from e resumes pid n state st)))),
           snd (last (fst (run_from e resumes pid n state st))), resumes @ [r])
    \<and> entry_point
          \<lparr>thread_values = snd (last (fst (run_from e resumes pid n state st))),
            thread_next = Some (fst (last (fst (run_from e resumes pid n state st)))),
            thread_resumes = resumes\<rparr> (Messages ms)
        = (Some START,
           (snd (last (fst (run_from e resumes pid n state st))))
             \<lparr>messages := messages (snd (last (fst (run_from e resumes pid n state st)))) @ ms\<rparr>,
           [])
    \<and> get_customer_details None cid phone mail = []
    \<and> check_customer_exists None cid phone mail = False
    \<and> get_invoices_by_customer_sorted_by_date None c = []
    \<and> get_invoices_sorted_by_unit_price None c = []"
proof -
  obtain trace where trace: "run_from e resumes pid n state st = (trace, Raised err)"
    using assms(2) by (cases "run_from e resumes pid n state st") simp
  obtain stopped checkpoint where last: "last trace = (stopped, checkpoint)"
    by (cases "last trace")
  have entry: "(if awaiting_verification ss
        then invoke e pid (t, st) (Command_resume u)
        else invoke e pid (t, st) (Messages [HumanMessage u]))
      = invoke e pid (t, st) (input_of ss u)"
    by (simp add: input_of_def)
  have "invoke e pid (t, st) (input_of ss u)
      = (Inl err, (\<lparr>thread_values = checkpoint, thread_next = Some stopped,
                    thread_resumes = resumes\<rparr>, st))"
    using assms(1) trace last by (simp add: invoke_def)
  then have handler: "handle_user_input (Some e) pid ss (t, st) u
      = ((ss\<lparr>ui_messages := ui_messages ss @ [HumanMessage u]\<rparr>, Error error_msg),
         (\<lparr>thread_values = checkpoint, thread_next = Some stopped,
           thread_resumes = resumes\<rparr>, st))"
    unfolding handle_user_input_def by (simp add: entry)
  from run_from_raised_at_last [OF assms(2)] trace last
  have failing: "run_node e resumes pid stopped checkpoint st = Raised err"
    by simp
  from handler failing trace last show ?thesis
    by (simp add: entry_point_def get_customer_details_def check_customer_exists_def
        get_invoices_by_customer_sorted_by_date_def get_invoices_sorted_by_unit_price_def)
qed

theorem stage_failure_apology_witness:
  "handle_user_input (Some failing_env) ''id-1'' new_session (new_thread, []) ''What did I buy?''
     = ((\<lparr>ui_messages = [HumanMessage ''What did I buy?''], awaiting_verification = False\<rparr>,
         Error error_msg),
        (\<lparr>thread_values =
            \<lparr>messages = [HumanMessage ''What did I buy?''],
             customer_id = Some (Some ''customer_1''), loaded_preferences = Some []\<rparr>,
          thread_next = Some Supervisor_agent, thread_resumes = []\<rparr>, []))"
proof -
  let ?state = "\<lparr>messages = [HumanMessage ''What did I buy?''], customer_id = None,
        loaded_preferences = None\<rparr>"
  have run: "run_from failing_env [] ''id-1'' START ?state []
    = ([(START, ?state), (Summarize_conversation, ?state), (Verify_customer, ?state),
        (Extract_preferences, ?state\<lparr>customer_id := Some (Some ''customer_1'')\<rparr>),
        (Supervisor_agent, \<lparr>messages = [HumanMessage ''What did I buy?''],
          customer_id = Some (Some ''customer_1''), loaded_preferences = Some []\<rparr>)],
       Raised ExternalCallError)"
    by (simp add: run_from.simps failing_env_def evaluation)
  have entry: "entry_point new_thread (input_of new_session ''What did I buy?'')
      = (Some START, ?state, [])"
    by (simp add: entry_point_def input_of_def new_session_def new_thread_def)
  have raised: "snd (run_from failing_env [] ''id-1'' START ?state []) = Raised ExternalCallError"
    by (simp add: run)
  from stage_failure_apology [OF entry raised] show ?thesis
    by (simp add: run new_session_def)
qed

text \<open>
  SQLite raises on every query while the model extracts the email of \<open>customer_1\<close>: the
  lookup reads as no match, and the user is shown the prompt of the verification, not
  the apology.
\<close>

theorem database_failure_counterexample:
  "handle_user_input (Some database_down_env) ''id-1'' new_session (new_thread, [])
       ''My email is customer1@example.com''
     = ((\<lparr>ui_messages = [HumanMessage ''My email is customer1@example.com''],
          awaiting_verification = True\<rparr>,
         Markdown (lock @ ''Please provide your phone number or email for verification.'')),
        (\<lparr>thread_values =
            \<lparr>messages = [HumanMessage ''My email is customer1@example.com''],
             customer_id = None, loaded_preferences = None\<rparr>,
          thread_next = Some Verify_customer, thread_resumes = []\<rparr>, []))"
proof -
  let ?state = "\<lparr>messages = [HumanMessage ''My email is customer1@example.com''],
        customer_id = None, loaded_preferences = None\<rparr>"
  have run: "run_from database_down_env [] ''id-1'' START ?state []
    = ([(START, ?state), (Summarize_conversation, ?state), (Verify_customer, ?state)],
       Interrupt ''Please provide your phone number or email for verification.'')"
    by (simp add: run_from.simps database_down_env_def evaluation)
  show ?thesis
    by (simp add: handle_user_input_def invoke_def entry_point_def new_session_def
        new_thread_def run)
qed

text \<open>
  C6. With eleven preference records stored for \<open>customer_1\<close>, \<open>extract_preferences\<close>
  loads the header and the first ten texts joined by newlines; the eleventh record
  is not read.
\<close>

theorem eleventh_preference_not_loaded:
  "length (filter (\<lambda>i. item_namespace i = (Some ''customer_1'', ''preferences''))
     eleven_preferences) = 11
   \<and> extract_preferences eleven_preferences verified_state
     = Return (''## Preferences of user\<newline>'' @
         join ''\<newline>'' [''likes Jazz'', ''likes Rock'', ''likes Blues'', ''likes Pop'',
           ''likes Metal'', ''likes Latin'', ''likes Opera'', ''likes Reggae'', ''likes World'',
           ''likes Comedy''])
   \<and> extract_preferences eleven_preferences verified_state
     \<noteq> Return (''## Preferences of user\<newline>'' @
         join ''\<newline>'' (map item_text
           (filter (\<lambda>i. item_namespace i = (Some ''customer_1'', ''preferences''))
              eleven_preferences)))"
proof -
  let ?ten = "[''likes Jazz'', ''likes Rock'', ''likes Blues'', ''likes Pop'',
           ''likes Metal'', ''likes Latin'', ''likes Opera'', ''likes Reggae'', ''likes World'',
           ''likes Comedy'']"
  let ?all = "map item_text
           (filter (\<lambda>i. item_namespace i = (Some ''customer_1'', ''preferences''))
              eleven_preferences)"
  have found: "map item_text (search eleven_preferences (Some ''customer_1'', ''preferences''))
      = ?ten"
    by (simp add: search_def search_default_limit_def eleven_preferences_def)
  have stored: "length (filter (\<lambda>i. item_namespace i = (Some ''customer_1'', ''preferences''))
     eleven_preferences) = 11"
    by (simp add: eleven_preferences_def)
  have loaded: "extract_preferences eleven_preferences verified_state
     = Return (''## Preferences of user\<newline>'' @ join ''\<newline>'' ?ten)"
    by (simp add: extract_preferences_def Let_def found verified_state_def)
  have ten: "length (join ''\<newline>'' ?ten) = 117"
    by simp
  have all: "length (join ''\<newline>'' ?all) = 131"
    by (simp add: eleven_preferences_def)
  have "join ''\<newline>'' ?ten \<noteq> join ''\<newline>'' ?all"
  proof
    assume "join ''\<newline>'' ?ten = join ''\<newline>'' ?all"
    then have "length (join ''\<newline>'' ?ten) = length (join ''\<newline>'' ?all)"
      by (rule arg_cong)
    with ten all show False by simp
  qed
  with stored loaded show ?thesis by simp
qed

text \<open>
  C7. \<open>save_preferences\<close> on a state that holds loaded preferences and a \<open>customer_id\<close>,
  when the model replies. If the reply, stripped and in lower case, is
  \<open>no preferences found.\<close> the store is returned as it was. Otherwise the stripped reply
  is put under the namespace of the identity and the drawn id: the store raises
  \<open>InvalidNamespaceError\<close> when the identity is no valid label, and else returns the
  store with one record written. When the drawn id is not yet a key of the namespace
  that record is appended; when it is, the text of the record under it is replaced
  and nothing is appended. The records of every namespace never become fewer.
\<close>

theorem save_preferences_writes_one:
  assumes "loaded_preferences state = Some previous"
    and "customer_id state = Some cid"
    and "pm (last_human_message_content state) previous = Inr response"
  shows "save_preferences pm pid st state
           = (if lower (strip response) = ''no preferences found.'' then Return (state, st)
              else if valid_namespace (cid, ''preferences'')
                then Return (state, upsert st (cid, ''preferences'') pid (strip response))
                else Raised InvalidNamespaceError)
    \<and> ((\<forall>i\<in>set st. item_namespace i = (cid, ''preferences'') \<longrightarrow> item_key i \<noteq> pid)
         \<longrightarrow> upsert st (cid, ''preferences'') pid (strip response)
             = st @ [\<lparr>item_namespace = (cid, ''preferences''), item_key = pid,
                      item_text = strip response\<rparr>])
    \<and> (\<forall>pre i post.
          st = pre @ i # post \<and> item_namespace i = (cid, ''preferences'') \<and> item_key i = pid
          \<and> (\<forall>j\<in>set pre. \<not> (item_namespace j = (cid, ''preferences'') \<and> item_key j = pid))
         \<longrightarrow> upsert st (cid, ''preferences'') pid (strip response)
             = pre @ i\<lparr>item_text := strip response\<rparr> # post)
    \<and> (\<forall>ns. length (filter (\<lambda>i. item_namespace i = ns) st)
            \<le> length (filter (\<lambda>i. item_namespace i = ns)
                 (upsert st (cid, ''preferences'') pid (strip response))))"
proof -
  have "save_preferences pm pid st state
           = (if lower (strip response) = ''no preferences found.'' then Return (state, st)
              else if valid_namespace (cid, ''preferences'')
                then Return (state, upsert st (cid, ''preferences'') pid (strip response))
                else Raised InvalidNamespaceError)"
    using assms by (simp add: save_preferences_def put_def)
  moreover have "(\<forall>i\<in>set st. item_namespace i = (cid, ''preferences'') \<longrightarrow> item_key i \<noteq> pid)
         \<longrightarrow> upsert st (cid, ''preferences'') pid (strip response)
             = st @ [\<lparr>item_namespace = (cid, ''preferences''), item_key = pid,
                      item_text = strip response\<rparr>]"
    by (simp add: upsert_fresh)
  moreover have "\<forall>pre i post.
          st = pre @ i # post \<and> item_namespace i = (cid, ''preferences'') \<and> item_key i = pid
          \<and> (\<forall>j\<in>set pre. \<not> (item_namespace j = (cid, ''preferences'') \<and> item_key j = pid))
         \<longrightarrow> upsert st (cid, ''preferences'') pid (strip response)
             = pre @ i\<lparr>item_text := strip response\<rparr> # post"
    using upsert_present by blast
  moreover have "\<forall>ns. length (filter (\<lambda>i. item_namespace i = ns) st)
            \<le> length (filter (\<lambda>i. item_namespace i = ns)
                 (upsert st (cid, ''preferences'') pid (strip response)))"
    by (simp add: filter_upsert_length)
  ultimately show ?thesis by blast
qed

theorem save_preferences_writes_one_witness:
  "save_preferences
       (\<lambda>input previous. if input = ''I love Jazz'' then Inr '' Customer likes Jazz. ''
          else Inl ExternalCallError)
       ''id-2''
       [\<lparr>item_namespace = (Some ''customer_1'', ''preferences''), item_key = ''id-1'',
           item_text = ''Customer likes Rock.''\<rparr>] loaded_state
     = Return (loaded_state,
         [\<lparr>item_namespace = (Some ''customer_1'', ''preferences''), item_key = ''id-1'',
           item_text = ''Customer likes Rock.''\<rparr>,
          \<lparr>item_namespace = (Some ''customer_1'', ''preferences''), item_key = ''id-2'',
           item_text = ''Customer likes Jazz.''\<rparr>])"
proof -
  let ?pm = "\<lambda>input previous. if input = ''I love Jazz'' then Inr '' Customer likes Jazz. ''
          else Inl ExternalCallError"
  let ?st = "[\<lparr>item_namespace = (Some ''customer_1'', ''preferences''), item_key = ''id-1'',
           item_text = ''Customer likes Rock.''\<rparr>]"
  have a: "loaded_preferences loaded_state = Some []"
    and b: "customer_id loaded_state = Some (Some ''customer_1'')"
    by (simp_all add: loaded_state_def)
  have c: "?pm (last_human_message_content loaded_state) [] = Inr '' Customer likes Jazz. ''"
    by (simp add: last_human_message_content_def loaded_state_def is_human_def)
  have d: "strip '' Customer likes Jazz. '' = ''Customer likes Jazz.''"
    by (simp add: strip_def is_space_def)
  have e: "lower ''Customer likes Jazz.'' \<noteq> ''no preferences found.''"
    by (simp add: lower_def lower_char_def upper_case_def lower_case_def)
  have f: "valid_namespace (Some ''customer_1'', ''preferences'')"
    by (simp add: valid_namespace_def valid_label_def)
  from save_preferences_writes_one [of loaded_state "[]" "Some ''customer_1''" ?pm
      "'' Customer likes Jazz. ''" "''id-2''" ?st, OF a b c]
  show ?thesis
    by (simp add: d e f)
qed

text \<open>
  The reply \<open>no preferences found\<close>, without the full stop, is recorded as a preference,
  and the reply \<open>No Preferences Found.\<close> between blanks is not. When the drawn id is
  already a key of the namespace the record under it is rewritten. For the identity
  \<open>john.doe\<close> the store raises and nothing is recorded.
\<close>

theorem sentinel_without_full_stop_counterexample:
  "save_preferences (\<lambda>input previous. Inr ''no preferences found'') ''id-1'' [] loaded_state
     = Return (loaded_state,
         [\<lparr>item_namespace = (Some ''customer_1'', ''preferences''), item_key = ''id-1'',
           item_text = ''no preferences found''\<rparr>])
   \<and> save_preferences (\<lambda>input previous. Inr '' No Preferences Found. '') ''id-1'' [] loaded_state
     = Return (loaded_state, [])
   \<and> save_preferences (\<lambda>input previous. Inr ''Customer likes Jazz.'') ''id-1''
       [\<lparr>item_namespace = (Some ''customer_1'', ''preferences''), item_key = ''id-1'',
         item_text = ''Customer likes Rock.''\<rparr>] loaded_state
     = Return (loaded_state,
         [\<lparr>item_namespace = (Some ''customer_1'', ''preferences''), item_key = ''id-1'',
           item_text = ''Customer likes Jazz.''\<rparr>])
   \<and> save_preferences (\<lambda>input previous. Inr ''Customer likes Jazz.'') ''id-1'' []
       (loaded_state\<lparr>customer_id := Some (Some ''john.doe'')\<rparr>)
     = Raised InvalidNamespaceError"
  by (simp add: save_preferences_def loaded_state_def lower_def strip_def is_space_def
      lower_char_def upper_case_def lower_case_def put_def valid_namespace_def valid_label_def)

text \<open>
  C8. \<open>get_invoices_sorted_by_unit_price\<close> returns the invoices of the customer, each
  once, in descending order of the \<open>amount\<close> column (a \<open>NULL\<close> amount last), and the
  empty list when SQLite raises.
\<close>

theorem invoices_sorted_by_amount_desc:
  "sorted_wrt (\<lambda>a b. amount b \<le> amount a) (get_invoices_sorted_by_unit_price conn cid)
   \<and> mset (get_invoices_sorted_by_unit_price (Some d) cid)
       = image_mset invoice_of_row (filter_mset (\<lambda>r. inv_customer_id r = cid) (mset (invoices d)))
   \<and> get_invoices_sorted_by_unit_price None cid = []"
proof -
  have key: "amount (invoice_of_row r) = inv_amount r" for r
    by (simp add: invoice_of_row_def)
  have "sorted_wrt (\<lambda>a b. amount b \<le> amount a) (map invoice_of_row (order_by_desc inv_amount rows))" for rows
    using sorted_order_by_desc [of inv_amount rows]
    by (simp add: sorted_wrt_map key)
  then have "sorted_wrt (\<lambda>a b. amount b \<le> amount a) (get_invoices_sorted_by_unit_price conn cid)"
    by (cases conn) (simp_all add: get_invoices_sorted_by_unit_price_def)
  moreover have "mset (get_invoices_sorted_by_unit_price (Some d) cid)
       = image_mset invoice_of_row (filter_mset (\<lambda>r. inv_customer_id r = cid) (mset (invoices d)))"
    by (simp add: get_invoices_sorted_by_unit_price_def mset_order_by_desc)
  ultimately show ?thesis
    by (simp add: get_invoices_sorted_by_unit_price_def)
qed

lemma sample_sorted_by_amount:
  "map invoice_id (get_invoices_sorted_by_unit_price (Some sample_database) ''customer_1'')
     = [Some ''invoice_1'', Some ''invoice_4'']
   \<and> map invoice_id (get_invoices_by_customer_sorted_by_date (Some sample_database) ''customer_1'')
     = [Some ''invoice_4'', Some ''invoice_1'']"
  by (simp add: get_invoices_sorted_by_unit_price_def get_invoices_by_customer_sorted_by_date_def
      sample_database_def sample_invoices_def order_by_desc_def invoice_of_row_def)



text \<open>
  C10. Called with an id, a phone number and an email that are each absent or empty,
  \<open>get_customer_details\<close> returns \<open>{}\<close> and \<open>check_customer_exists\<close> returns \<open>False\<close>,
  whatever the tables hold. A run of \<open>verify_customer\<close> in which every extraction
  yields such a record ends suspended, never with an identity.
\<close>

theorem empty_claim_never_resolves:
  assumes "\<not> truthy cid" and "\<not> truthy phone" and "\<not> truthy mail"
    and "extracts_empty vm (SystemMessage system_prompt # messages state)"
    and "\<forall>r\<in>set resumes. extracts_empty vm [SystemMessage system_prompt, HumanMessage r]"
  shows "get_customer_details conn cid phone mail = []
    \<and> check_customer_exists conn cid phone mail = False
    \<and> (\<exists>prompt. snd (verify_customer vm conn state resumes) = Interrupt prompt)"
proof -
  have details: "get_customer_details conn cid phone mail = []"
    using assms(1-3) by (rule get_customer_details_empty)
  have exists: "check_customer_exists conn cid phone mail = False"
    using assms(1-3) conditions_empty_iff [of cid phone mail]
    by (simp add: check_customer_exists_def split: option.splits)
  have first: "extracts_unmatched vm conn (SystemMessage system_prompt # messages state)"
    using assms(4) by (rule extracts_empty_unmatched)
  have later: "\<forall>r\<in>set resumes.
      extracts_unmatched vm conn [SystemMessage system_prompt, HumanMessage r]"
    using assms(5) by (auto intro: extracts_empty_unmatched)
  from verify_customer_unmatched [OF first later] details exists show ?thesis
    by simp
qed

theorem empty_claim_never_resolves_witness:
  "get_customer_details (Some sample_database) None (Some []) None = []
    \<and> check_customer_exists (Some sample_database) None (Some []) None = False
    \<and> (\<exists>prompt. snd (verify_customer empty_fields_model (Some sample_database) fresh_state
          [''it is me'', ''hello'']) = Interrupt prompt)"
proof -
  have a: "\<not> truthy None" "\<not> truthy (Some [])"
    by (simp_all add: truthy_def)
  have b: "extracts_empty empty_fields_model (SystemMessage system_prompt # messages fresh_state)"
    by (simp add: extracts_empty_def empty_fields_model_def empty_fields_def truthy_def)
  have c: "\<forall>r\<in>set [''it is me'', ''hello''].
      extracts_empty empty_fields_model [SystemMessage system_prompt, HumanMessage r]"
    by (simp add: extracts_empty_def empty_fields_model_def empty_fields_def truthy_def)
  from empty_claim_never_resolves [OF a(1) a(2) a(1) b c] show ?thesis .
qed

end
